theory Spec2Isabelle
  imports Complex_Main
begin

section \<open>Data model\<close>

text \<open>
  The script \<^verbatim>\<open>code.py\<close> works on pandas DataFrames. A cell is a number, a piece of
  text, or absent (\<^verbatim>\<open>NaN\<close> in a float column, \<^verbatim>\<open>None\<close> in an object column). Floats
  are read as reals, as the specification does ("a real number or absent").

  A column carries its dtype and its cells: \<^verbatim>\<open>float64\<close> (numbers or absent),
  \<^verbatim>\<open>int64\<close> (whole numbers), \<^verbatim>\<open>object\<close> (Python values: numbers, text or
  absent) or \<^verbatim>\<open>category\<close> with the list of its categories (category names or
  absent).

  A DataFrame is its row labels (\<open>index\<close>) and its named columns, in order.
\<close>

datatype cell = Num real | Txt string | NA

datatype dtype = Float64 | Int64 | Object | Category "string list"

datatype column = Column (dtype_of: dtype) (cells: "cell list")

fun is_category :: "dtype \<Rightarrow> bool" where
  "is_category (Category cats) = True"
| "is_category dt = False"

record dataframe =
  index :: "int list"
  columns :: "(string \<times> column) list"

text \<open>The exceptions the library calls of the two functions can raise.\<close>

datatype error = KeyError string | TypeError | ValueError | OverflowError

text \<open>
  DataFrames are mutable objects. The store is the list of the frames allocated so far;
  an address is a position in it. \<^verbatim>\<open>df.copy()\<close> (a deep copy) allocates a new frame
  with the same contents.
\<close>

type_synonym heap = "dataframe list"

definition alloc :: "heap \<Rightarrow> dataframe \<Rightarrow> heap \<times> nat" where
  "alloc h d = (h @ [d], length h)"

definition copy_df :: "heap \<Rightarrow> nat \<Rightarrow> heap \<times> nat" where
  "copy_df h a = alloc h (h ! a)"

text \<open>
  The frames the library builds: column names are distinct and every column has one
  cell per row label.
\<close>

definition wf_df :: "dataframe \<Rightarrow> bool" where
  "wf_df d = (distinct (map fst (columns d)) \<and>
     list_all (\<lambda>nc. length (cells (snd nc)) = length (index d)) (columns d))"

fun is_txt :: "cell \<Rightarrow> bool" where
  "is_txt (Txt s) = True"
| "is_txt c = False"

text \<open>A numeric-or-absent column: not categorical, and no cell holds text.\<close>

definition numeric_or_absent :: "column \<Rightarrow> bool" where
  "numeric_or_absent c = (\<not> is_category (dtype_of c) \<and> \<not> list_ex is_txt (cells c))"

section \<open>The library operations the script calls\<close>

text \<open>\<^verbatim>\<open>df[name]\<close>: the column of that name, \<^verbatim>\<open>KeyError\<close> when there is none.\<close>

definition getitem :: "dataframe \<Rightarrow> string \<Rightarrow> error + column" where
  "getitem d name =
     (case map_of (columns d) name of
        None \<Rightarrow> Inl (KeyError name)
      | Some c \<Rightarrow> Inr c)"

text \<open>
  \<^verbatim>\<open>df[name] = column\<close>: replaces the column of that name where it stands, or appends
  a new last column.
\<close>

fun set_col :: "(string \<times> column) list \<Rightarrow> string \<Rightarrow> column \<Rightarrow> (string \<times> column) list" where
  "set_col [] name c = [(name, c)]"
| "set_col (nc # cs) name c =
     (if fst nc = name then (name, c) # cs else nc # set_col cs name c)"

definition setitem :: "dataframe \<Rightarrow> string \<Rightarrow> column \<Rightarrow> dataframe" where
  "setitem d name c = d\<lparr>columns := set_col (columns d) name c\<rparr>"

text \<open>
  \<^verbatim>\<open>series.fillna(v)\<close> with a number \<open>v\<close>: every absent cell becomes \<open>v\<close>, the
  dtype stays. On a categorical column the fill value must be one of the categories; a
  number is not, and the call raises \<^verbatim>\<open>TypeError\<close>, unless the column has no row:
  then it is returned as it is.
\<close>

fun fill_cell :: "real \<Rightarrow> cell \<Rightarrow> cell" where
  "fill_cell v NA = Num v"
| "fill_cell v c = c"

definition fillna :: "column \<Rightarrow> real \<Rightarrow> error + column" where
  "fillna c v =
     (if is_category (dtype_of c)
      then (if cells c = [] then Inr c else Inl TypeError)
      else Inr (Column (dtype_of c) (map (fill_cell v) (cells c))))"

text \<open>
  \<^verbatim>\<open>pd.cut(x, bins=bs, labels=ls, include_lowest=il)\<close> with the default
  \<^verbatim>\<open>right=True\<close>. The library finds the bin of a value with
  \<^verbatim>\<open>bins.searchsorted(x, side="left")\<close>, the number of edges strictly below the value;
  with \<^verbatim>\<open>include_lowest\<close> a value equal to the first edge is put in bin 1; position 0
  (below every edge) and position \<^verbatim>\<open>len(bins)\<close> (above every edge) give no label. So the
  intervals are closed on the right. The result is a categorical column whose
  categories are the labels.
\<close>

definition searchsorted_left :: "real list \<Rightarrow> real \<Rightarrow> nat" where
  "searchsorted_left bs x = length (takeWhile (\<lambda>b. b < x) bs)"

definition cut_value :: "real list \<Rightarrow> string list \<Rightarrow> bool \<Rightarrow> real \<Rightarrow> cell" where
  "cut_value bs ls include_lowest x =
     (let ids = (if include_lowest \<and> x = hd bs then 1 else searchsorted_left bs x)
      in if ids = 0 \<or> ids = length bs then NA else Txt (ls ! (ids - 1)))"

fun cut_cell :: "real list \<Rightarrow> string list \<Rightarrow> bool \<Rightarrow> cell \<Rightarrow> cell" where
  "cut_cell bs ls il (Num x) = cut_value bs ls il x"
| "cut_cell bs ls il c = NA"

definition cut :: "column \<Rightarrow> real list \<Rightarrow> string list \<Rightarrow> bool \<Rightarrow> error + column" where
  "cut x bs ls il =
     (if length bs < 2 then Inl ValueError
      else if sorted bs \<and> distinct bs then
        (if list_ex is_txt (cells x) then Inl TypeError
         else if length ls + 1 = length bs then
           Inr (Column (Category ls) (map (cut_cell bs ls il) (cells x)))
         else Inl ValueError)
      else Inl ValueError)"

text \<open>\<^verbatim>\<open>series == v\<close>: the boolean mask of the cells equal to the number \<open>v\<close>.\<close>

definition eq_mask :: "column \<Rightarrow> real \<Rightarrow> bool list" where
  "eq_mask c v = map (\<lambda>x. x = Num v) (cells c)"

text \<open>
  \<^verbatim>\<open>df.loc[mask, name] = v\<close> with a text value \<open>v\<close>. For a frame without rows the
  assignment is a no-op. Otherwise the value is written into the column: a categorical
  column accepts only one of its categories and raises \<^verbatim>\<open>TypeError\<close> ("Cannot setitem
  on a Categorical with a new category, set the categories first") for any other
  value, whatever the mask selects, since the value is validated before it is
  written. A name that is no column yet makes a new column (not reached by the script).
\<close>

definition put_where :: "bool list \<Rightarrow> cell \<Rightarrow> cell list \<Rightarrow> cell list" where
  "put_where msk v xs = map2 (\<lambda>b x. if b then v else x) msk xs"

definition loc_setitem :: "dataframe \<Rightarrow> bool list \<Rightarrow> string \<Rightarrow> string \<Rightarrow> error + dataframe" where
  "loc_setitem d msk name v =
     (case map_of (columns d) name of
        None \<Rightarrow> Inr (setitem d name (Column Object (map (\<lambda>b. if b then Txt v else NA) msk)))
      | Some c \<Rightarrow>
          if msk = [] then Inr d
          else (case dtype_of c of
                  Category cats \<Rightarrow>
                    if v \<in> set cats
                    then Inr (setitem d name (Column (Category cats) (put_where msk (Txt v) (cells c))))
                    else Inl TypeError
                | _ \<Rightarrow> Inr (setitem d name (Column Object (put_where msk (Txt v) (cells c))))))"

text \<open>
  \<^verbatim>\<open>df.drop(columns=name, inplace=True)\<close>: removes the column, \<^verbatim>\<open>KeyError\<close> when
  there is none.
\<close>

definition drop_columns :: "dataframe \<Rightarrow> string \<Rightarrow> error + dataframe" where
  "drop_columns d name =
     (if name \<in> set (map fst (columns d))
      then Inr (d\<lparr>columns := filter (\<lambda>nc. fst nc \<noteq> name) (columns d)\<rparr>)
      else Inl (KeyError name))"

text \<open>
  The threshold of a comparison is a Python number, a float or an int of any size.
\<close>

datatype pynum = PyFloat real | PyInt int

text \<open>
  The float64 nearest to a whole number, ties to the even mantissa: the conversion numpy
  and Python apply to an integer. A whole number of at most 53 bits is kept; a longer one
  is rounded to a multiple of \<open>2 ^ e\<close>, where \<open>e\<close> is the number of bits beyond 53.
\<close>

fun bit_length :: "nat \<Rightarrow> nat" where
  "bit_length n = (if n = 0 then 0 else Suc (bit_length (n div 2)))"

declare bit_length.simps [simp del]

definition nearest_float64 :: "int \<Rightarrow> int" where
  "nearest_float64 n =
     (let a = nat \<bar>n\<bar>;
          e = bit_length a - 53;
          q = a div 2 ^ e;
          r = a mod 2 ^ e;
          q' = (if 2 ^ e < 2 * r \<or> (2 * r = 2 ^ e \<and> odd q) then q + 1 else q)
      in sgn n * int (q' * 2 ^ e))"

text \<open>
  \<^verbatim>\<open>series >= m\<close>: elementwise, false on an absent cell; comparing text with a number
  raises \<^verbatim>\<open>TypeError\<close>, and so does comparing a categorical column with a number that
  is none of its categories. numpy compares the two sides in one type: the values of
  an int64 column are converted to float64 when the threshold is a float, and an int
  threshold is converted to float64 when the column is float64 (\<^verbatim>\<open>OverflowError\<close>
  when it is too large for a float). An int64 column and an int threshold are compared
  as integers, and the cells of an object column are compared as Python compares
  numbers, exactly.
\<close>

fun promote_value :: "dtype \<Rightarrow> pynum \<Rightarrow> real \<Rightarrow> real" where
  "promote_value Int64 (PyFloat x) v = of_int (nearest_float64 \<lfloor>v\<rfloor>)"
| "promote_value dt m v = v"

fun promote_threshold :: "dtype \<Rightarrow> pynum \<Rightarrow> error + real" where
  "promote_threshold Float64 (PyInt k) =
     (if 2 ^ 1024 \<le> \<bar>nearest_float64 k\<bar> then Inl OverflowError
      else Inr (of_int (nearest_float64 k)))"
| "promote_threshold dt (PyInt k) = Inr (of_int k)"
| "promote_threshold dt (PyFloat x) = Inr x"

fun ge_cell :: "real \<Rightarrow> cell \<Rightarrow> bool" where
  "ge_cell t (Num x) = (t \<le> x)"
| "ge_cell t c = False"

fun promote_cell :: "dtype \<Rightarrow> pynum \<Rightarrow> cell \<Rightarrow> cell" where
  "promote_cell dt m (Num v) = Num (promote_value dt m v)"
| "promote_cell dt m c = c"

definition compare_cell :: "dtype \<Rightarrow> pynum \<Rightarrow> real \<Rightarrow> cell \<Rightarrow> bool" where
  "compare_cell dt m t x = ge_cell t (promote_cell dt m x)"

definition ge_mask :: "column \<Rightarrow> pynum \<Rightarrow> error + bool list" where
  "ge_mask c m =
     (if is_category (dtype_of c) \<or> list_ex is_txt (cells c) then Inl TypeError
      else (case promote_threshold (dtype_of c) m of
              Inl e \<Rightarrow> Inl e
            | Inr t \<Rightarrow> Inr (map (compare_cell (dtype_of c) m t) (cells c))))"

text \<open>
  \<^verbatim>\<open>df[mask]\<close> with a boolean mask: a new frame with the rows whose mask entry is
  true, every column and the row labels filtered alike.
\<close>

definition select :: "bool list \<Rightarrow> 'a list \<Rightarrow> 'a list" where
  "select msk xs = map fst (filter snd (zip xs msk))"

definition getitem_bool :: "dataframe \<Rightarrow> bool list \<Rightarrow> dataframe" where
  "getitem_bool d msk =
     \<lparr>index = select msk (index d),
      columns = map (\<lambda>nc. (fst nc, Column (dtype_of (snd nc)) (select msk (cells (snd nc)))))
                  (columns d)\<rparr>"

section \<open>The two functions of the script\<close>

text \<open>The constants of \<^verbatim>\<open>add_category_column\<close> (lines 76 to 83).\<close>

definition sentinel :: real where
  "sentinel = - 9999"

definition bins :: "real list" where
  "bins = [- 10000, 30, 60, 1000000000]"

definition labels :: "string list" where
  "labels = [''low'', ''medium'', ''high'']"

text \<open>
  \<^verbatim>\<open>add_category_column(df, col)\<close>, lines 74 to 85: the copy is allocated, then
  changed in place statement by statement; an exception leaves the store as it was when
  it was raised and returns no frame.
\<close>

definition add_category_column :: "heap \<Rightarrow> nat \<Rightarrow> string \<Rightarrow> heap \<times> (error + nat)" where
  "add_category_column h df col =
     (let (h0, out) = copy_df h df in
      case getitem (h0 ! out) col of
        Inl e \<Rightarrow> (h0, Inl e)
      | Inr src \<Rightarrow>
     (case fillna src sentinel of
        Inl e \<Rightarrow> (h0, Inl e)
      | Inr filled \<Rightarrow>
     (let h1 = h0[out := setitem (h0 ! out) ''_val_filled'' filled] in
      case getitem (h1 ! out) ''_val_filled'' of
        Inl e \<Rightarrow> (h1, Inl e)
      | Inr x \<Rightarrow>
     (case cut x bins labels True of
        Inl e \<Rightarrow> (h1, Inl e)
      | Inr cat \<Rightarrow>
     (let h2 = h1[out := setitem (h1 ! out) ''category'' cat] in
      case getitem (h2 ! out) ''_val_filled'' of
        Inl e \<Rightarrow> (h2, Inl e)
      | Inr y \<Rightarrow>
     (case loc_setitem (h2 ! out) (eq_mask y sentinel) ''category'' ''missing'' of
        Inl e \<Rightarrow> (h2, Inl e)
      | Inr d \<Rightarrow>
     (let h3 = h2[out := d] in
      case drop_columns (h3 ! out) ''_val_filled'' of
        Inl e \<Rightarrow> (h3, Inl e)
      | Inr d' \<Rightarrow> (h3[out := d'], Inr out))))))))"

text \<open>
  \<^verbatim>\<open>filter_by_min_value(df, min_value)\<close>, line 90: the mask, the frame of the selected
  rows, and its copy, which is returned.
\<close>

definition filter_by_min_value :: "heap \<Rightarrow> nat \<Rightarrow> pynum \<Rightarrow> heap \<times> (error + nat)" where
  "filter_by_min_value h df min_value =
     (case getitem (h ! df) ''value'' of
        Inl e \<Rightarrow> (h, Inl e)
      | Inr c \<Rightarrow>
     (case ge_mask c min_value of
        Inl e \<Rightarrow> (h, Inl e)
      | Inr msk \<Rightarrow>
     (let (h1, sel) = alloc h (getitem_bool (h ! df) msk);
          (h2, res) = copy_df h1 sel
      in (h2, Inr res))))"

section \<open>Observations and example frames\<close>

text \<open>
  A call leaves the frames of the old store alone when the new store starts with the old
  one; its result is fresh when it is an address the old store did not have.
\<close>

definition fresh_in :: "heap \<Rightarrow> heap \<times> (error + nat) \<Rightarrow> bool" where
  "fresh_in h r = (case snd r of Inl e \<Rightarrow> True | Inr a \<Rightarrow> length h \<le> a \<and> a < length (fst r))"

text \<open>
  Row \<open>i\<close> of a frame: its label and its cells by column name. The rows a threshold
  keeps are the positions whose value is a number that the comparison, after its
  conversions, finds at or above the threshold.
\<close>

definition row :: "dataframe \<Rightarrow> nat \<Rightarrow> int \<times> (string \<times> cell) list" where
  "row d i = (index d ! i, map (\<lambda>nc. (fst nc, cells (snd nc) ! i)) (columns d))"

definition rows :: "dataframe \<Rightarrow> (int \<times> (string \<times> cell) list) list" where
  "rows d = map (row d) [0..<length (index d)]"

definition kept :: "column \<Rightarrow> pynum \<Rightarrow> real \<Rightarrow> nat list" where
  "kept c m t = filter (\<lambda>i. compare_cell (dtype_of c) m t (cells c ! i)) [0..<length (cells c)]"

text \<open>
  The comparisons in which no conversion can round, and the threshold as a real number.
\<close>

fun exact_comparison :: "dtype \<Rightarrow> pynum \<Rightarrow> bool" where
  "exact_comparison Int64 (PyFloat x) = False"
| "exact_comparison Float64 (PyInt k) = (\<bar>k\<bar> < 2 ^ 53)"
| "exact_comparison dt m = True"

fun value_of :: "pynum \<Rightarrow> real" where
  "value_of (PyFloat x) = x"
| "value_of (PyInt k) = of_int k"

text \<open>
  A frame shaped like the one \<^verbatim>\<open>create_sample_df\<close> builds (an absent value, an absent
  name), with the values of the specification's filter example.
\<close>

definition sample :: dataframe where
  "sample = \<lparr>index = [0, 1, 2, 3],
     columns = [(''id'', Column Int64 [Num 1, Num 2, Num 3, Num 4]),
                (''name'', Column Object [Txt ''item_1'', Txt ''item_2'', NA, Txt ''item_4'']),
                (''value'', Column Float64 [Num 10, NA, Num 50, Num 55])]\<rparr>"

text \<open>A frame whose value column is int64 and holds \<open>2 ^ 53 + 3\<close>.\<close>

definition big_int :: dataframe where
  "big_int = \<lparr>index = [0], columns = [(''value'', Column Int64 [Num 9007199254740995])]\<rparr>"

text \<open>A frame whose only value is absent.\<close>

definition one_absent :: dataframe where
  "one_absent = \<lparr>index = [0], columns = [(''value'', Column Float64 [NA])]\<rparr>"

text \<open>Values on the two interior boundaries, and a genuine value equal to the sentinel.\<close>

definition edges :: dataframe where
  "edges = \<lparr>index = [0, 1, 2],
     columns = [(''value'', Column Float64 [Num 30, Num 60, NA])]\<rparr>"

definition collide :: dataframe where
  "collide = \<lparr>index = [0], columns = [(''value'', Column Float64 [Num (- 9999)])]\<rparr>"

section \<open>Basic facts about the library operations\<close>

lemma map_of_set_col_same: "map_of (set_col cs n c) n = Some c"
  by (induction cs) auto

lemma map_of_set_col_other: "n' \<noteq> n \<Longrightarrow> map_of (set_col cs n c) n' = map_of cs n'"
  by (induction cs) auto

lemma set_col_fresh: "n \<notin> set (map fst cs) \<Longrightarrow> set_col cs n c = cs @ [(n, c)]"
  by (induction cs) auto

lemma getitem_setitem_same: "getitem (setitem d n c) n = Inr c"
  by (simp add: getitem_def setitem_def map_of_set_col_same)

lemma getitem_setitem_other: "n' \<noteq> n \<Longrightarrow> getitem (setitem d n c) n' = getitem d n'"
  by (simp add: getitem_def setitem_def map_of_set_col_other)

text \<open>
  The store of \<^verbatim>\<open>add_category_column\<close> read off the input frame: every statement
  works on the copy, the last cell of the store.
\<close>

lemma add_category_column_steps:
  "add_category_column h df col =
     (case getitem (h ! df) col of
        Inl e \<Rightarrow> (h @ [h ! df], Inl e)
      | Inr src \<Rightarrow>
     (case fillna src sentinel of
        Inl e \<Rightarrow> (h @ [h ! df], Inl e)
      | Inr filled \<Rightarrow>
     (case cut filled bins labels True of
        Inl e \<Rightarrow> (h @ [setitem (h ! df) ''_val_filled'' filled], Inl e)
      | Inr cat \<Rightarrow>
     (case loc_setitem (setitem (setitem (h ! df) ''_val_filled'' filled) ''category'' cat)
             (eq_mask filled sentinel) ''category'' ''missing'' of
        Inl e \<Rightarrow> (h @ [setitem (setitem (h ! df) ''_val_filled'' filled) ''category'' cat], Inl e)
      | Inr d \<Rightarrow>
     (case drop_columns d ''_val_filled'' of
        Inl e \<Rightarrow> (h @ [d], Inl e)
      | Inr d' \<Rightarrow> (h @ [d'], Inr (length h)))))))"
  unfolding add_category_column_def copy_df_def alloc_def
  by (simp add: Let_def getitem_setitem_same getitem_setitem_other split: sum.splits)

lemmas eval_defs = add_category_column_def copy_df_def alloc_def Let_def getitem_def setitem_def
  fillna_def cut_def cut_value_def searchsorted_left_def bins_def labels_def sentinel_def
  loc_setitem_def eq_mask_def drop_columns_def

lemma cut_default:
  assumes "\<not> list_ex is_txt (cells x)"
  shows "cut x bins labels True =
           Inr (Column (Category labels) (map (cut_cell bins labels True) (cells x)))"
  using assms by (simp add: cut_def bins_def labels_def)

lemma fillna_numeric:
  assumes "numeric_or_absent src"
  shows "fillna src v = Inr (Column (dtype_of src) (map (fill_cell v) (cells src)))"
    and "\<not> list_ex is_txt (map (fill_cell v) (cells src))"
proof -
  show "fillna src v = Inr (Column (dtype_of src) (map (fill_cell v) (cells src)))"
    using assms by (simp add: fillna_def numeric_or_absent_def)
  have "\<And>c. \<not> is_txt c \<Longrightarrow> \<not> is_txt (fill_cell v c)"
    by (case_tac c) auto
  then show "\<not> list_ex is_txt (map (fill_cell v) (cells src))"
    using assms by (auto simp: numeric_or_absent_def list_ex_iff)
qed

lemma filter_by_min_value_store:
  "fst (filter_by_min_value h df m) = h \<and> (\<exists>e. snd (filter_by_min_value h df m) = Inl e) \<or>
   (\<exists>d. fst (filter_by_min_value h df m) = h @ [d, d] \<and>
        snd (filter_by_min_value h df m) = Inr (Suc (length h)))"
  unfolding filter_by_min_value_def copy_df_def alloc_def
  by (simp add: Let_def nth_append split: sum.splits)

lemma add_category_column_store:
  "\<exists>d. fst (add_category_column h df col) = h @ [d] \<and>
       (snd (add_category_column h df col) = Inr (length h) \<or>
        (\<exists>e. snd (add_category_column h df col) = Inl e))"
  by (simp add: add_category_column_steps split: sum.splits)

section \<open>Binning at the interval boundaries\<close>

text \<open>
  Claim C1, as the code has it. The claim says a value on an interior boundary gets the
  label of the interval above it (30 to medium, 60 to high). The binning of lines 76 to
  82 has intervals closed on the right: for every numeric-or-absent source column, a
  present value equal to an interior boundary gets the label of the interval for which
  it is the upper edge, 30 to low and 60 to medium.
\<close>

theorem interior_boundary_takes_lower_interval:
  assumes "numeric_or_absent src" and "i < length (cells src)" and "cells src ! i = Num v"
  shows "\<exists>filled cat. fillna src sentinel = Inr filled \<and>
           cut filled bins labels True = Inr cat \<and>
           (v = 30 \<longrightarrow> cells cat ! i = Txt ''low'') \<and>
           (v = 60 \<longrightarrow> cells cat ! i = Txt ''medium'')"
proof -
  let ?filled = "Column (dtype_of src) (map (fill_cell sentinel) (cells src))"
  let ?cat = "Column (Category labels) (map (cut_cell bins labels True) (cells ?filled))"
  have f: "fillna src sentinel = Inr ?filled"
    using assms(1) by (rule fillna_numeric(1))
  have "\<not> list_ex is_txt (cells ?filled)"
    using fillna_numeric(2)[OF assms(1)] by simp
  then have c: "cut ?filled bins labels True = Inr ?cat"
    by (rule cut_default)
  have cell: "cells ?cat ! i = cut_value bins labels True v"
    using assms(2,3) by simp
  have "cut_value bins labels True 30 = Txt ''low''"
    by (simp add: bins_def labels_def cut_value_def searchsorted_left_def)
  moreover have "cut_value bins labels True 60 = Txt ''medium''"
    by (simp add: bins_def labels_def cut_value_def searchsorted_left_def)
  ultimately show ?thesis using f c cell by auto
qed

text \<open>The theorem of C1 at a column holding 30, 60 and an absent value.\<close>

theorem interior_boundary_takes_lower_interval_witness:
  "numeric_or_absent (Column Float64 [Num 30, Num 60, NA]) \<and>
   (\<exists>filled cat. fillna (Column Float64 [Num 30, Num 60, NA]) sentinel = Inr filled \<and>
      cut filled bins labels True = Inr cat \<and>
      cells cat ! 0 = Txt ''low'') \<and>
   (\<exists>filled cat. fillna (Column Float64 [Num 30, Num 60, NA]) sentinel = Inr filled \<and>
      cut filled bins labels True = Inr cat \<and>
      cells cat ! 1 = Txt ''medium'')"
  using interior_boundary_takes_lower_interval [of "Column Float64 [Num 30, Num 60, NA]" 0 30]
        interior_boundary_takes_lower_interval [of "Column Float64 [Num 30, Num 60, NA]" 1 60]
  by (simp add: numeric_or_absent_def)

text \<open>
  Claim C1 as stated fails on the frame with the values 30, 60 and absent: the category
  column the call has built holds low for 30 and medium for 60, not medium and high (and
  the call then raises at line 83, see C2).
\<close>

theorem boundary_value_not_labelled_with_upper_interval:
  "add_category_column [edges] 0 ''value'' =
     ([edges,
       \<lparr>index = [0, 1, 2],
        columns = [(''value'', Column Float64 [Num 30, Num 60, NA]),
                   (''_val_filled'', Column Float64 [Num 30, Num 60, Num (- 9999)]),
                   (''category'', Column (Category [''low'', ''medium'', ''high''])
                      [Txt ''low'', Txt ''medium'', Txt ''low''])]\<rparr>],
      Inl TypeError)"
  by (simp add: eval_defs edges_def)

section \<open>The override of line 83\<close>

text \<open>
  Claim C2 says the call never fails on a numeric-or-absent column and labels every row.
  On the sample frame, whose value column holds an absent value as the frame of
  \<^verbatim>\<open>create_sample_df\<close> does, the call raises \<^verbatim>\<open>TypeError\<close> at line 83: the category
  column is categorical with the categories low, medium and high, and "missing" is
  none of them. No frame is returned.
\<close>

theorem sample_frame_raises:
  "add_category_column [sample] 0 ''value'' =
     ([sample,
       \<lparr>index = [0, 1, 2, 3],
        columns = [(''id'', Column Int64 [Num 1, Num 2, Num 3, Num 4]),
                   (''name'', Column Object [Txt ''item_1'', Txt ''item_2'', NA, Txt ''item_4'']),
                   (''value'', Column Float64 [Num 10, NA, Num 50, Num 55]),
                   (''_val_filled'', Column Float64 [Num 10, Num (- 9999), Num 50, Num 55]),
                   (''category'', Column (Category [''low'', ''medium'', ''high''])
                      [Txt ''low'', Txt ''low'', Txt ''medium'', Txt ''medium''])]\<rparr>],
      Inl TypeError)"
  by (simp add: eval_defs sample_def)

text \<open>
  Claim C10 says a present value equal to -9999 is labelled missing. On the frame whose
  only value is -9999 the override selects the row, as it would an absent one, and the
  call raises \<^verbatim>\<open>TypeError\<close> at line 83 for the reason given at C2; the row is not
  labelled missing.
\<close>

theorem genuine_sentinel_value_raises:
  "add_category_column [collide] 0 ''value'' =
     ([collide,
       \<lparr>index = [0],
        columns = [(''value'', Column Float64 [Num (- 9999)]),
                   (''_val_filled'', Column Float64 [Num (- 9999)]),
                   (''category'', Column (Category [''low'', ''medium'', ''high'']) [Txt ''low''])]\<rparr>],
      Inl TypeError)"
  by (simp add: eval_defs collide_def)

section \<open>The sentinel and the lowest boundary\<close>

text \<open>
  Claim C5, as the code has it. The claim puts the sentinel strictly below the lowest
  bin boundary. In the code the sentinel -9999 lies strictly above the lowest boundary
  -10000 and inside the first interval, so the binning gives a sentinel-carrying cell the
  label low, the label of a genuine low value such as -50; telling the two apart is left
  to the override on the filled value.
\<close>

theorem sentinel_inside_first_interval:
  "hd bins < sentinel \<and> sentinel \<le> bins ! 1 \<and>
   cut_value bins labels True sentinel = Txt ''low'' \<and>
   cut_value bins labels True (- 50) = Txt ''low''"
  by (simp add: sentinel_def bins_def labels_def cut_value_def searchsorted_left_def)

text \<open>Claim C5 as stated fails: the sentinel is not below the first bin edge.\<close>

theorem sentinel_not_below_lowest_boundary: "\<not> sentinel < hd bins"
  by (simp add: sentinel_def bins_def)

section \<open>The input frame is never changed\<close>

text \<open>
  Claim C7: whatever the two functions do, and whether they return or raise, every frame
  of the store they were called with, the input frame among them, is unchanged, and a
  returned frame lives at a new address.
\<close>

theorem input_frames_unchanged:
  assumes "df < length h"
  shows "fst (add_category_column h df col) ! df = h ! df \<and>
         take (length h) (fst (add_category_column h df col)) = h \<and>
         fresh_in h (add_category_column h df col) \<and>
         fst (filter_by_min_value h df m) ! df = h ! df \<and>
         take (length h) (fst (filter_by_min_value h df m)) = h \<and>
         fresh_in h (filter_by_min_value h df m)"
proof -
  obtain d where a: "fst (add_category_column h df col) = h @ [d]"
    and a': "snd (add_category_column h df col) = Inr (length h) \<or>
             (\<exists>e. snd (add_category_column h df col) = Inl e)"
    using add_category_column_store by blast
  have f: "fst (filter_by_min_value h df m) = h \<and>
             (\<exists>e. snd (filter_by_min_value h df m) = Inl e) \<or>
           (\<exists>d. fst (filter_by_min_value h df m) = h @ [d, d] \<and>
                snd (filter_by_min_value h df m) = Inr (Suc (length h)))"
    by (rule filter_by_min_value_store)
  have 1: "fst (add_category_column h df col) ! df = h ! df"
    using a assms by (simp add: nth_append)
  have 2: "take (length h) (fst (add_category_column h df col)) = h"
    using a by simp
  have 3: "fresh_in h (add_category_column h df col)"
    using a a' by (auto simp: fresh_in_def)
  have 4: "fst (filter_by_min_value h df m) ! df = h ! df"
    using f assms by (auto simp: nth_append)
  have 5: "take (length h) (fst (filter_by_min_value h df m)) = h"
    using f by auto
  have 6: "fresh_in h (filter_by_min_value h df m)"
    using f by (auto simp: fresh_in_def)
  from 1 2 3 4 5 6 show ?thesis by blast
qed

text \<open>
  The theorem of C7 on the store holding the sample frame, for the value column and the
  threshold 50.
\<close>

theorem input_frames_unchanged_witness:
  "0 < length [sample] \<and>
   fst (add_category_column [sample] 0 ''value'') ! 0 = sample \<and>
   take 1 (fst (add_category_column [sample] 0 ''value'')) = [sample] \<and>
   fresh_in [sample] (add_category_column [sample] 0 ''value'') \<and>
   fst (filter_by_min_value [sample] 0 (PyInt 50)) ! 0 = sample \<and>
   take 1 (fst (filter_by_min_value [sample] 0 (PyInt 50))) = [sample] \<and>
   fresh_in [sample] (filter_by_min_value [sample] 0 (PyInt 50))"
  using input_frames_unchanged [of 0 "[sample]" "''value''" "PyInt 50"]
  by simp

section \<open>A missing source column\<close>

text \<open>
  Claim C9: when the frame has no column of the given name, the call raises
  \<^verbatim>\<open>KeyError\<close> at its first statement after the copy; the store holds the input and
  its untouched copy, so nothing was labelled.
\<close>

theorem add_category_column_missing_column:
  assumes "col \<notin> set (map fst (columns (h ! df)))" and "df < length h"
  shows "add_category_column h df col = (h @ [h ! df], Inl (KeyError col))"
proof -
  from assms(1) have "map_of (columns (h ! df)) col = None"
    by (simp add: map_of_eq_None_iff)
  then have "getitem (h ! df) col = Inl (KeyError col)"
    by (simp add: getitem_def)
  then show ?thesis
    by (simp add: add_category_column_steps)
qed

text \<open>The theorem of C9 on the sample frame, asked for a column it does not have.\<close>

theorem add_category_column_missing_column_witness:
  "''score'' \<notin> set (map fst (columns ([sample] ! 0))) \<and> 0 < length [sample] \<and>
   add_category_column [sample] 0 ''score'' = ([sample, sample], Inl (KeyError ''score''))"
  using add_category_column_missing_column [of "''score''" "[sample]" 0]
  by (simp add: sample_def)

section \<open>What the raise at line 83 leaves undone\<close>

text \<open>
  Claim C4 says the number of rows labelled missing equals the number of absent values
  of the source column. On the frame whose only value is absent that number is 1; the
  call raises \<^verbatim>\<open>TypeError\<close> at line 83 for the reason given at C2, returns no frame,
  and the category column it had built holds low for the row, not missing.
\<close>

theorem absent_value_never_labelled_missing:
  "add_category_column [one_absent] 0 ''value'' =
     ([one_absent,
       \<lparr>index = [0],
        columns = [(''value'', Column Float64 [NA]),
                   (''_val_filled'', Column Float64 [Num (- 9999)]),
                   (''category'', Column (Category [''low'', ''medium'', ''high'']) [Txt ''low''])]\<rparr>],
      Inl TypeError) \<and>
   count_list (cells (Column Float64 [NA])) NA = 1 \<and>
   count_list [Txt ''low''] (Txt ''missing'') = 0"
  by (simp add: eval_defs one_absent_def)

text \<open>
  Claim C8 says the output has the original columns plus the one new column and no
  working column. On the sample frame the call raises \<^verbatim>\<open>TypeError\<close> at line 83,
  before line 84 drops the working column: no frame is returned, and the copy the call
  was building still holds the column \<^verbatim>\<open>_val_filled\<close>.
\<close>

theorem working_column_never_dropped:
  "snd (add_category_column [sample] 0 ''value'') = Inl TypeError \<and>
   map fst (columns (fst (add_category_column [sample] 0 ''value'') ! 1)) =
     [''id'', ''name'', ''value'', ''_val_filled'', ''category'']"
  by (simp add: eval_defs sample_def)

section \<open>Conversion to float64\<close>

text \<open>
  An integer of fewer than 54 bits is its own nearest float64; \<open>2 ^ 53 + 3\<close> lies between
  the float64 values \<open>2 ^ 53 + 2\<close> and \<open>2 ^ 53 + 4\<close> and rounds to the even one, the upper.
\<close>

lemma bit_length_le: "a < 2 ^ n \<Longrightarrow> bit_length a \<le> n"
proof (induction n arbitrary: a)
  case 0
  then show ?case by (simp add: bit_length.simps)
next
  case (Suc n)
  then have "a div 2 < 2 ^ n" by auto
  then have "bit_length (a div 2) \<le> n" by (rule Suc.IH)
  then show ?case by (subst bit_length.simps) simp
qed

lemma nearest_float64_small:
  assumes "\<bar>k\<bar> < 2 ^ 53"
  shows "nearest_float64 k = k"
proof -
  have "nat \<bar>k\<bar> < 2 ^ 53" using assms by (simp add: nat_less_iff)
  then have "bit_length (nat \<bar>k\<bar>) - 53 = 0"
    using bit_length_le [of "nat \<bar>k\<bar>" 53] by simp
  then show ?thesis
    by (simp add: nearest_float64_def Let_def mult_sgn_abs)
qed

lemma bit_length_Bit0: "bit_length (numeral (Num.Bit0 n)) = Suc (bit_length (numeral n))"
  by (subst bit_length.simps) simp

lemma bit_length_Bit1: "bit_length (numeral (Num.Bit1 n)) = Suc (bit_length (numeral n))"
  by (subst bit_length.simps) simp

lemma bit_length_One: "bit_length (numeral Num.One) = 1"
  by (subst bit_length.simps) (simp add: bit_length.simps)

lemma bit_length_Suc_0: "bit_length (Suc 0) = Suc 0"
  by (simp add: bit_length.simps)

lemmas bit_length_numeral = bit_length_Bit0 bit_length_Bit1 bit_length_One bit_length_Suc_0

lemma bit_length_big: "bit_length 9007199254740995 = 54"
  by (simp add: bit_length_numeral)

lemma nearest_big: "nearest_float64 9007199254740995 = 9007199254740996"
  by (simp add: nearest_float64_def Let_def bit_length_big)

lemma exact_comparison_values:
  assumes "exact_comparison dt m" and "promote_threshold dt m = Inr t"
  shows "t = value_of m \<and> promote_value dt m v = v"
  using assms
  by (cases dt; cases m) (auto simp: nearest_float64_small split: if_splits)

section \<open>The rows the filter keeps\<close>

text \<open>Selecting by a mask, and the shape of the frame the filter returns.\<close>

lemmas eval_filter = filter_by_min_value_def alloc_def copy_df_def getitem_def ge_mask_def
  getitem_bool_def select_def Let_def compare_cell_def

lemma select_nth:
  "length xs = length msk \<Longrightarrow>
     select msk xs = map ((!) xs) (filter ((!) msk) [0..<length msk])"
proof (induction xs msk rule: rev_induct2)
  case (4 x xs b bs)
  then have len: "length xs = length bs" by simp
  with 4 have IH: "select bs xs = map ((!) xs) (filter ((!) bs) [0..<length bs])"
    by simp
  have 1: "filter ((!) (bs @ [b])) [0..<length bs] = filter ((!) bs) [0..<length bs]"
    by (rule filter_cong) (auto simp: nth_append)
  have 2: "map ((!) (xs @ [x])) (filter ((!) bs) [0..<length bs])
         = map ((!) xs) (filter ((!) bs) [0..<length bs])"
    using len by (intro map_cong) (auto simp: nth_append)
  have 3: "(xs @ [x]) ! length bs = x"
    using len [symmetric] by simp
  have "select (bs @ [b]) (xs @ [x]) = select bs xs @ (if b then [x] else [])"
    using len by (simp add: select_def)
  moreover have "filter ((!) (bs @ [b])) [0..<length (bs @ [b])]
      = filter ((!) bs) [0..<length bs] @ (if b then [length bs] else [])"
    using 1 by simp
  ultimately show ?case
    using IH 2 3 by simp
qed (simp_all add: select_def)

lemma select_map_pred: "select (map P xs) xs = filter P xs"
  by (induction xs) (auto simp: select_def)

lemma select_all_true:
  assumes "list_all (\<lambda>b. b) msk" and "length xs \<le> length msk"
  shows "select msk xs = xs"
  using assms
proof (induction xs arbitrary: msk)
  case Nil
  then show ?case by (simp add: select_def)
next
  case (Cons x xs)
  then obtain b bs where m: "msk = b # bs" by (cases msk) auto
  with Cons.prems have "b" "list_all (\<lambda>b. b) bs" "length xs \<le> length bs" by auto
  with Cons.IH[of bs] m show ?case by (simp add: select_def)
qed

lemma length_select:
  assumes "length xs = length msk"
  shows "length (select msk xs) = length (filter (\<lambda>b. b) msk)"
  using assms by (induction xs msk rule: list_induct2) (auto simp: select_def)


lemma compare_cell_iff:
  "compare_cell dt m t x \<longleftrightarrow> (\<exists>v. x = Num v \<and> t \<le> promote_value dt m v)"
  by (cases x) (auto simp: compare_cell_def)

lemma kept_mask:
  "kept c m t = filter ((!) (map (compare_cell (dtype_of c) m t) (cells c)))
                  [0..<length (map (compare_cell (dtype_of c) m t) (cells c))]"
  unfolding kept_def by (rule filter_cong) auto

lemma kept_set:
  "set (kept c m t) =
     {i. i < length (cells c) \<and> (\<exists>v. cells c ! i = Num v \<and> t \<le> promote_value (dtype_of c) m v)}"
  by (auto simp: kept_def compare_cell_iff)

lemma kept_sorted: "sorted_wrt (<) (kept c m t)"
  unfolding kept_def by (rule sorted_wrt_filter) simp

lemma ge_mask_numeric:
  assumes "numeric_or_absent c" and "promote_threshold (dtype_of c) m = Inr t"
  shows "ge_mask c m = Inr (map (compare_cell (dtype_of c) m t) (cells c))"
  using assms by (simp add: ge_mask_def numeric_or_absent_def)

lemma wf_column_length:
  assumes "wf_df d" and "nc \<in> set (columns d)"
  shows "length (cells (snd nc)) = length (index d)"
  using assms by (auto simp: wf_df_def list_all_iff)

lemma getitem_in_columns:
  assumes "getitem d name = Inr c"
  shows "(name, c) \<in> set (columns d)"
  using assms by (auto simp: getitem_def dest: map_of_SomeD split: option.splits)

lemma rows_getitem_bool:
  assumes "wf_df d" and "length msk = length (index d)"
  shows "rows (getitem_bool d msk) = map (row d) (filter ((!) msk) [0..<length msk])"
proof -
  let ?keep = "filter ((!) msk) [0..<length msk]"
  have idx: "index (getitem_bool d msk) = map ((!) (index d)) ?keep"
    using assms(2) by (simp add: getitem_bool_def select_nth)
  have col: "select msk (cells (snd nc)) = map ((!) (cells (snd nc))) ?keep"
    if "nc \<in> set (columns d)" for nc
    using wf_column_length[OF assms(1) that] assms(2) by (simp add: select_nth)
  have "row (getitem_bool d msk) j = row d (?keep ! j)" if "j < length ?keep" for j
    using that idx col by (simp add: row_def getitem_bool_def comp_def)
  then have "map (row (getitem_bool d msk)) [0..<length ?keep] = map (\<lambda>j. row d (?keep ! j)) [0..<length ?keep]"
    by simp
  also have "\<dots> = map (row d) (map ((!) ?keep) [0..<length ?keep])"
    by (simp add: comp_def)
  also have "\<dots> = map (row d) ?keep"
    by (simp only: map_nth)
  finally show ?thesis
    using idx by (simp add: rows_def)
qed

lemma wf_getitem_bool:
  assumes "wf_df d" and "length msk = length (index d)"
  shows "wf_df (getitem_bool d msk)"
proof -
  have names: "map fst (columns (getitem_bool d msk)) = map fst (columns d)"
    by (simp add: getitem_bool_def comp_def)
  have "length (select msk (cells (snd nc))) = length (select msk (index d))"
    if "nc \<in> set (columns d)" for nc
    using wf_column_length[OF assms(1) that] assms(2) by (simp add: length_select)
  then have "list_all (\<lambda>nc. length (cells (snd nc)) = length (index (getitem_bool d msk)))
               (columns (getitem_bool d msk))"
    by (simp add: getitem_bool_def list_all_iff)
  moreover have "distinct (map fst (columns (getitem_bool d msk)))"
    using assms(1) names by (simp add: wf_df_def)
  ultimately show ?thesis
    by (simp add: wf_df_def)
qed

lemma filter_by_min_value_result:
  assumes "getitem (h ! df) ''value'' = Inr c" and "numeric_or_absent c"
    and "promote_threshold (dtype_of c) m = Inr t"
  shows "filter_by_min_value h df m =
           (h @ [getitem_bool (h ! df) (map (compare_cell (dtype_of c) m t) (cells c)),
                 getitem_bool (h ! df) (map (compare_cell (dtype_of c) m t) (cells c))],
            Inr (Suc (length h)))"
  using assms
  by (simp add: filter_by_min_value_def ge_mask_numeric alloc_def copy_df_def nth_append)

text \<open>
  Claim C3, as the code has it: on a well-formed frame whose value column is numeric or
  absent, with a threshold that converts to the column's type, the call returns a frame
  and never raises; its rows are the rows of the input at the kept positions, in
  increasing order of position, so in the input's order and none twice; the columns are
  the input's. A position is kept exactly when its value is a number and, as the
  comparison converts the two sides, at or above the threshold: an int64 value is
  converted to the nearest float64 against a float threshold, and an int threshold to
  the nearest float64 against a float64 column. An absent value is dropped. Where no
  conversion can round, a position is kept exactly when its value is a number
  numerically at or above the threshold.
\<close>

theorem filter_by_min_value_rows:
  assumes "wf_df (h ! df)" and "getitem (h ! df) ''value'' = Inr c" and "numeric_or_absent c"
    and "promote_threshold (dtype_of c) m = Inr t" and "df < length h"
  shows "\<exists>h' r. filter_by_min_value h df m = (h', Inr r) \<and>
           rows (h' ! r) = map (row (h ! df)) (kept c m t) \<and>
           map fst (columns (h' ! r)) = map fst (columns (h ! df)) \<and>
           wf_df (h' ! r) \<and>
           sorted_wrt (<) (kept c m t) \<and>
           set (kept c m t) =
             {i. i < length (index (h ! df)) \<and>
                 (\<exists>v. cells c ! i = Num v \<and> t \<le> promote_value (dtype_of c) m v)} \<and>
           (exact_comparison (dtype_of c) m \<longrightarrow>
              set (kept c m t) =
                {i. i < length (index (h ! df)) \<and>
                    (\<exists>v. cells c ! i = Num v \<and> value_of m \<le> v)})"
proof -
  let ?msk = "map (compare_cell (dtype_of c) m t) (cells c)"
  let ?d = "getitem_bool (h ! df) ?msk"
  have len: "length (cells c) = length (index (h ! df))"
    using wf_column_length[OF assms(1) getitem_in_columns[OF assms(2)]] by simp
  have res: "filter_by_min_value h df m = (h @ [?d, ?d], Inr (Suc (length h)))"
    using assms(2,3,4) by (rule filter_by_min_value_result)
  have at: "(h @ [?d, ?d]) ! Suc (length h) = ?d"
    by (simp add: nth_append)
  have r: "rows ?d = map (row (h ! df)) (kept c m t)"
    using rows_getitem_bool[OF assms(1), of ?msk] len by (simp add: kept_mask)
  have n: "map fst (columns ?d) = map fst (columns (h ! df))"
    by (simp add: getitem_bool_def comp_def)
  have w: "wf_df ?d"
    using wf_getitem_bool[OF assms(1), of ?msk] len by simp
  have s: "set (kept c m t) =
             {i. i < length (index (h ! df)) \<and>
                 (\<exists>v. cells c ! i = Num v \<and> t \<le> promote_value (dtype_of c) m v)}"
    using kept_set[of c m t] len by simp
  have e: "set (kept c m t) =
             {i. i < length (index (h ! df)) \<and> (\<exists>v. cells c ! i = Num v \<and> value_of m \<le> v)}"
    if "exact_comparison (dtype_of c) m"
    using s exact_comparison_values[OF that assms(4)] by simp
  show ?thesis
    using res at r n w s e kept_sorted[of c m t] by simp
qed

text \<open>
  The theorem of C3 on the sample frame with the threshold 50 of \<^verbatim>\<open>main\<close>, the example of
  the specification: the values 10, absent, 50, 55 give the rows of 50 and 55.
\<close>

theorem filter_by_min_value_rows_witness:
  "wf_df ([sample] ! 0) \<and> 0 < length [sample] \<and>
   getitem ([sample] ! 0) ''value'' = Inr (Column Float64 [Num 10, NA, Num 50, Num 55]) \<and>
   numeric_or_absent (Column Float64 [Num 10, NA, Num 50, Num 55]) \<and>
   promote_threshold Float64 (PyInt 50) = Inr 50 \<and>
   exact_comparison Float64 (PyInt 50) \<and>
   kept (Column Float64 [Num 10, NA, Num 50, Num 55]) (PyInt 50) 50 = [2, 3] \<and>
   (\<exists>h' r. filter_by_min_value [sample] 0 (PyInt 50) = (h', Inr r) \<and>
      rows (h' ! r) =
        [(2, [(''id'', Num 3), (''name'', NA), (''value'', Num 50)]),
         (3, [(''id'', Num 4), (''name'', Txt ''item_4''), (''value'', Num 55)])])"
proof -
  let ?c = "Column Float64 [Num 10, NA, Num 50, Num 55]"
  have w: "wf_df ([sample] ! 0)"
    by (simp add: wf_df_def sample_def)
  have g: "getitem ([sample] ! 0) ''value'' = Inr ?c"
    by (simp add: getitem_def sample_def)
  have n: "numeric_or_absent ?c"
    by (simp add: numeric_or_absent_def)
  have p: "promote_threshold (dtype_of ?c) (PyInt 50) = Inr 50"
    by (simp add: nearest_float64_small)
  have x: "exact_comparison Float64 (PyInt 50)"
    by simp
  have k: "kept ?c (PyInt 50) 50 = [2, 3]"
    by (simp add: kept_def compare_cell_def upt_rec)
  have r: "map (row ([sample] ! 0)) [2, 3] =
        [(2, [(''id'', Num 3), (''name'', NA), (''value'', Num 50)]),
         (3, [(''id'', Num 4), (''name'', Txt ''item_4''), (''value'', Num 55)])]"
    by (simp add: row_def sample_def)
  have a: "0 < length [sample]" by simp
  from filter_by_min_value_rows [OF w g n p a] k r w g n p x show ?thesis
    by auto
qed

text \<open>
  Claim C3 as stated fails for an int64 column and a float threshold: the value
  \<open>2 ^ 53 + 3\<close> is below the threshold \<open>2 ^ 53 + 4\<close>, and the call keeps its row, because
  the value is converted to float64 before the comparison and rounds up to the threshold.
\<close>

theorem int64_value_below_threshold_kept:
  "filter_by_min_value [big_int] 0 (PyFloat 9007199254740996) =
     ([big_int, big_int, big_int], Inr 2) \<and>
   \<not> (9007199254740996 \<le> (9007199254740995 :: real))"
  by (simp add: eval_filter big_int_def nearest_big)

section \<open>Filtering twice\<close>

lemma map_of_map_snd:
  "map_of (map (\<lambda>nc. (fst nc, f (snd nc))) cs) k = map_option f (map_of cs k)"
  by (induction cs) auto

lemma ge_mask_Inr:
  assumes "ge_mask c m = Inr msk"
  shows "numeric_or_absent c \<and> (\<exists>t. promote_threshold (dtype_of c) m = Inr t)"
  using assms
  by (auto simp: ge_mask_def numeric_or_absent_def split: if_splits sum.splits)

lemma filter_by_min_value_Inr:
  assumes "filter_by_min_value h df m = (h1, Inr r1)"
  shows "\<exists>c t. getitem (h ! df) ''value'' = Inr c \<and> numeric_or_absent c \<and>
           promote_threshold (dtype_of c) m = Inr t"
  using assms
  by (auto simp: filter_by_min_value_def split: sum.splits dest: ge_mask_Inr)

lemma getitem_bool_again:
  fixes P :: "cell \<Rightarrow> bool"
  assumes "wf_df d" and "getitem d ''value'' = Inr c"
  defines "d1 \<equiv> getitem_bool d (map P (cells c))"
  shows "getitem d1 ''value'' = Inr (Column (dtype_of c) (filter P (cells c)))"
    and "getitem_bool d1 (map P (filter P (cells c))) = d1"
proof -
  let ?msk = "map P (cells c)"
  let ?msk2 = "map P (filter P (cells c))"
  have len: "length (cells c) = length (index d)"
    using wf_column_length[OF assms(1) getitem_in_columns[OF assms(2)]] by simp
  have "map_of (columns d) ''value'' = Some c"
    using assms(2) by (simp add: getitem_def split: option.splits)
  then have "map_of (columns d1) ''value'' =
      Some (Column (dtype_of c) (select ?msk (cells c)))"
    unfolding d1_def getitem_bool_def
    using map_of_map_snd [of "\<lambda>x. Column (dtype_of x) (select ?msk (cells x))"
        "columns d" "''value''"]
    by simp
  then show "getitem d1 ''value'' = Inr (Column (dtype_of c) (filter P (cells c)))"
    by (simp add: getitem_def select_map_pred)
  have all: "list_all (\<lambda>b. b) ?msk2"
    by (simp add: list_all_iff)
  have cnt: "length (filter (\<lambda>b. b) ?msk) = length ?msk2"
    by (simp add: filter_map comp_def)
  have keep: "select ?msk2 (select ?msk xs) = select ?msk xs"
    if "length xs = length (index d)" for xs :: "'a list"
  proof (rule select_all_true[OF all])
    have "length (select ?msk xs) = length (filter (\<lambda>b. b) ?msk)"
      using that len by (intro length_select) simp
    then show "length (select ?msk xs) \<le> length ?msk2"
      using cnt by simp
  qed
  have i: "index (getitem_bool d1 ?msk2) = index d1"
    using keep[of "index d"] by (simp add: d1_def getitem_bool_def)
  have "select ?msk2 (select ?msk (cells (snd nc))) = select ?msk (cells (snd nc))"
    if "nc \<in> set (columns d)" for nc
    using keep [OF wf_column_length [OF assms(1) that]] .
  then have "map (\<lambda>nc. (fst nc, Column (dtype_of (snd nc)) (select ?msk2 (cells (snd nc)))))
          (columns d1) = columns d1"
    unfolding d1_def getitem_bool_def
    by (simp add: comp_def)
  then have c: "columns (getitem_bool d1 ?msk2) = columns d1"
    by (simp add: getitem_bool_def)
  show "getitem_bool d1 ?msk2 = d1"
    using i c by (simp add: getitem_bool_def d1_def)
qed

text \<open>
  Claim C6: when filtering a well-formed frame returns a frame, filtering that frame
  again with the same threshold returns a frame with the same contents.
\<close>

theorem filter_by_min_value_idempotent:
  assumes "wf_df (h ! df)" and "filter_by_min_value h df m = (h1, Inr r1)"
    and "df < length h"
  shows "\<exists>h2 r2. filter_by_min_value h1 r1 m = (h2, Inr r2) \<and> h2 ! r2 = h1 ! r1"
proof -
  obtain c t where g: "getitem (h ! df) ''value'' = Inr c" and n: "numeric_or_absent c"
    and p: "promote_threshold (dtype_of c) m = Inr t"
    using filter_by_min_value_Inr[OF assms(2)] by blast
  let ?P = "compare_cell (dtype_of c) m t"
  let ?d1 = "getitem_bool (h ! df) (map ?P (cells c))"
  let ?c1 = "Column (dtype_of c) (filter ?P (cells c))"
  have "filter_by_min_value h df m = (h @ [?d1, ?d1], Inr (Suc (length h)))"
    using g n p by (rule filter_by_min_value_result)
  with assms(2) have h1: "h1 = h @ [?d1, ?d1]" and r1: "r1 = Suc (length h)"
    by simp_all
  have at: "h1 ! r1 = ?d1"
    by (simp add: h1 r1 nth_append)
  have g1: "getitem (h1 ! r1) ''value'' = Inr ?c1"
    using getitem_bool_again(1)[OF assms(1) g, of ?P] at by simp
  have n1: "numeric_or_absent ?c1"
    using n by (auto simp: numeric_or_absent_def list_ex_iff)
  have p1: "promote_threshold (dtype_of ?c1) m = Inr t"
    using p by simp
  have same: "getitem_bool (h1 ! r1) (map (compare_cell (dtype_of ?c1) m t) (cells ?c1)) = h1 ! r1"
    using getitem_bool_again(2)[OF assms(1) g, of ?P] at by simp
  have "filter_by_min_value h1 r1 m =
          (h1 @ [h1 ! r1, h1 ! r1], Inr (Suc (length h1)))"
    using filter_by_min_value_result[OF g1 n1 p1] same by simp
  moreover have "(h1 @ [h1 ! r1, h1 ! r1]) ! Suc (length h1) = h1 ! r1"
    by (simp add: nth_append)
  ultimately show ?thesis by simp
qed

text \<open>The theorem of C6 on the sample frame with the threshold 50 of \<^verbatim>\<open>main\<close>.\<close>

theorem filter_by_min_value_idempotent_witness:
  "wf_df ([sample] ! 0) \<and> 0 < length [sample] \<and>
   (\<exists>h1 r1 h2 r2. filter_by_min_value [sample] 0 (PyInt 50) = (h1, Inr r1) \<and>
      filter_by_min_value h1 r1 (PyInt 50) = (h2, Inr r2) \<and> h2 ! r2 = h1 ! r1)"
proof -
  have w: "wf_df ([sample] ! 0)"
    by (simp add: wf_df_def sample_def)
  have a: "0 < length [sample]" by simp
  obtain h1 r1 where f: "filter_by_min_value [sample] 0 (PyInt 50) = (h1, Inr r1)"
    by (simp add: eval_filter sample_def nearest_float64_small)
  from filter_by_min_value_idempotent [OF w f a] f w show ?thesis
    by auto
qed

end
